theory Spec2Isabelle
  imports Main "HOL-Library.Word"
begin

section \<open>The chat client of \<^verbatim>\<open>apps/web/static/js/chat.js\<close>\<close>

text \<open>
  The script is a set of event handlers over seven page elements and three module
  variables. Each handler is embedded as a function on a record of that state. A handler
  that awaits a promise is split at the \<^verbatim>\<open>await\<close>: its first half registers a
  continuation under the number of the promise, and the event that settles the promise runs
  the second half. Calls into the platform that leave the page (\<^verbatim>\<open>fetch\<close>,
  \<^verbatim>\<open>alert\<close>, the recorder) are appended to a log, in call order.

  The data of the server has the types the script expects of it: identifiers are integers,
  titles, roles and timestamps are strings, and the text fields of a response are strings
  that may be missing. The recorder is the one the variable \<^verbatim>\<open>mediaRecorder\<close> names; the
  script has no way to reach a recorder that the variable has stopped naming.
\<close>

subsection \<open>Strings and numbers of the language\<close>

text \<open>A string is a sequence of 16-bit code units.\<close>

type_synonym js_string = "16 word list"

definition utf16 :: "string \<Rightarrow> js_string" where
  "utf16 cs = map of_char cs"

text \<open>
  White space and line terminators of the language standard, which
  \<^verbatim>\<open>String.prototype.trim\<close> and \<^verbatim>\<open>parseInt\<close> strip.
\<close>

definition is_white_space :: "16 word \<Rightarrow> bool" where
  "is_white_space c \<longleftrightarrow>
     c \<in> {0x0009, 0x000A, 0x000B, 0x000C, 0x000D, 0x0020, 0x00A0, 0x1680,
          0x2000, 0x2001, 0x2002, 0x2003, 0x2004, 0x2005, 0x2006, 0x2007,
          0x2008, 0x2009, 0x200A, 0x2028, 0x2029, 0x202F, 0x205F, 0x3000, 0xFEFF}"

definition trim :: "js_string \<Rightarrow> js_string" where
  "trim s = rev (dropWhile is_white_space (rev (dropWhile is_white_space s)))"

text \<open>\<^verbatim>\<open>s || ''\<close> on a string: the empty string is the only falsy one.\<close>

definition or_empty :: "js_string \<Rightarrow> js_string" where
  "or_empty s = (if s = [] then [] else s)"

text \<open>
  A Number as far as this script makes one: the result of \<^verbatim>\<open>parseInt\<close> or an
  integer identifier of the server. A Number is a double: \<open>Num i\<close> is the Number nearest
  to the integer \<open>i\<close>, which is \<open>i\<close> itself exactly when the magnitude of \<open>i\<close> is at
  most \<open>2 ^ 53\<close>. Beyond that the Number is a rounding of \<open>i\<close>, or an infinity, and what
  the platform prints for it (rounded digits, an exponent from \<open>10 ^ 21\<close> on,
  \<^verbatim>\<open>Infinity\<close>) depends on its binary form. That printing is not computed here: it is
  taken from the platform, as a function of \<open>i\<close>.
\<close>

datatype js_number = NaN | Num int

definition exact :: "int \<Rightarrow> bool" where
  "exact i \<longleftrightarrow> \<bar>i\<bar> \<le> 2 ^ 53"

definition is_digit :: "16 word \<Rightarrow> bool" where
  "is_digit c \<longleftrightarrow> 0x30 \<le> c \<and> c \<le> 0x39"

definition digit_value :: "16 word \<Rightarrow> nat" where
  "digit_value c = unat c - 48"

definition digits_value :: "js_string \<Rightarrow> nat" where
  "digits_value z = foldl (\<lambda>a c. 10 * a + digit_value c) 0 z"

text \<open>
  \<^verbatim>\<open>parseInt(s, 10)\<close>: leading white space is skipped, one sign is read, then the
  longest run of decimal digits; no digit gives \<^verbatim>\<open>NaN\<close>, and digits give the Number
  nearest to the integer they write.
\<close>

definition parseInt10 :: "js_string \<Rightarrow> js_number" where
  "parseInt10 s =
     (let S = dropWhile is_white_space s;
          sign = (case S of c # _ \<Rightarrow> if c = 0x2D then - 1 else 1 | [] \<Rightarrow> (1::int));
          S' = (case S of c # r \<Rightarrow> if c = 0x2B \<or> c = 0x2D then r else S | [] \<Rightarrow> S);
          Z = takeWhile is_digit S'
      in if Z = [] then NaN else Num (sign * int (digits_value Z)))"

definition digit_char :: "nat \<Rightarrow> 16 word" where
  "digit_char d = of_nat (48 + d)"

function decimal :: "nat \<Rightarrow> js_string" where
  "decimal n =
     (if n < 10 then [digit_char n]
      else decimal (n div 10) @ [digit_char (n mod 10)])"
  by pat_completeness auto
termination
  by (relation "measure (\<lambda>n. n)") auto

declare decimal.simps [simp del]

text \<open>
  The string a Number turns into when it is assigned to a string slot: the decimal digits
  of an exact integer, and what the platform prints (\<open>beyond\<close>) for any other.
\<close>

fun Number_toString :: "(int \<Rightarrow> js_string) \<Rightarrow> js_number \<Rightarrow> js_string" where
  "Number_toString beyond NaN = utf16 ''NaN''"
| "Number_toString beyond (Num i) =
     (if exact i then (if i < 0 then 0x2D # decimal (nat (- i)) else decimal (nat i))
      else beyond i)"

subsection \<open>Data of the server and of the page\<close>

text \<open>
  An optional string field of a response is \<open>None\<close> when the field is absent (or
  \<^verbatim>\<open>null\<close>, which the script treats alike), and so is an argument left out of a call.
\<close>

definition truthy :: "js_string option \<Rightarrow> bool" where
  "truthy v = (case v of None \<Rightarrow> False | Some s \<Rightarrow> s \<noteq> [])"

text \<open>\<^verbatim>\<open>v || d\<close>: the left operand when it is truthy, the right one otherwise.\<close>

definition or_default :: "js_string option \<Rightarrow> js_string \<Rightarrow> js_string" where
  "or_default v d = (case v of None \<Rightarrow> d | Some s \<Rightarrow> if s = [] then d else s)"

record conversation =
  c_id :: int
  c_title :: js_string
  c_created_at :: js_string

record message =
  m_role :: js_string
  m_content :: "js_string option"
  m_audio_path :: "js_string option"

record chat_data =
  reply :: "js_string option"

record say_data =
  say_transcript :: "js_string option"
  say_audio_url :: "js_string option"
  say_reply :: "js_string option"

text \<open>
  A message bubble: the \<^verbatim>\<open>div\<close> that \<^verbatim>\<open>addMessage\<close> builds. \<open>audio\<close> holds the
  markup assigned to the inner \<^verbatim>\<open>div.audio-bubble\<close>, which follows a line break; \<open>None\<close>
  when the bubble has no such child.
\<close>

record bubble =
  className :: js_string
  textContent :: js_string
  audio :: "js_string option"

text \<open>An entry of the conversation list; \<open>li_onclick\<close> is the \<^verbatim>\<open>c.id\<close> its handler closes over.\<close>

record li =
  li_textContent :: js_string
  li_cursor :: js_string
  li_onclick :: int

record blob =
  blob_bytes :: "8 word list"
  blob_type :: js_string

datatype json = JNull | JBool bool | JNumber int | JString js_string
  | JObject "(js_string \<times> json) list"

datatype form_value = Form_string js_string | Form_file blob js_string

datatype request_body = No_body | Body_json json | Body_form "(js_string \<times> form_value) list"

record request =
  url :: js_string
  http_method :: js_string
  headers :: "(js_string \<times> js_string) list"
  body :: request_body

text \<open>Calls that leave the page; a promise is named by its number.\<close>

datatype effect =
    PreventDefault
  | Fetch nat request
  | Alert js_string
  | GetUserMedia nat
  | MediaRecorder_new
  | MediaRecorder_start
  | MediaRecorder_stop nat

datatype recorder_state = Inactive | Recording | Paused

text \<open>
  Where a suspended handler resumes. \<open>After_conversations\<close> carries whether
  \<^verbatim>\<open>fetchConversations\<close> was called by \<^verbatim>\<open>init\<close>, which goes on to load the history.
  \<open>After_stop\<close> is the task that \<^verbatim>\<open>MediaRecorder.stop\<close> queues: it delivers the recorded
  data and then the \<^verbatim>\<open>stop\<close> event.
\<close>

datatype continuation =
    After_conversations bool
  | After_history
  | After_chat
  | After_say
  | After_getUserMedia
  | After_stop

text \<open>
  The page: the seven elements the script binds, its three module variables, what the
  platform provides (\<open>mediaDevices\<close>, the layout's \<open>scrollHeight\<close>, the locale's rendering
  of a timestamp, and what it prints and what \<^verbatim>\<open>JSON.stringify\<close> writes for a Number
  that is not an exact integer), the suspended handlers and the log of calls.
\<close>

record page =
  conversationsUl :: "li list"
  messagesDiv :: "bubble list"
  scrollTop :: nat
  textInput_value :: js_string
  micBtn_textContent :: js_string
  useRagCb_checked :: bool
  convIdInput_value :: js_string
  mediaRecorder :: "recorder_state option"
  chunks :: "blob list"
  recording :: bool
  mediaDevices :: bool
  scrollHeight :: "bubble list \<Rightarrow> nat"
  toLocaleString :: "js_string \<Rightarrow> js_string"
  toString_beyond :: "int \<Rightarrow> js_string"
  stringify_beyond :: "int \<Rightarrow> json"
  pending :: "(nat \<times> continuation) list"
  next_promise :: nat
  log :: "effect list"

subsection \<open>Platform calls\<close>

definition suspend :: "continuation \<Rightarrow> page \<Rightarrow> page" where
  "suspend k s = s\<lparr>pending := pending s @ [(next_promise s, k)],
                   next_promise := Suc (next_promise s)\<rparr>"

text \<open>
  \<^verbatim>\<open>await fetch(..)\<close> followed by \<^verbatim>\<open>await res.json()\<close>: the handler does nothing
  between the two, so they are one suspension, resumed with the parsed body.
\<close>

definition fetch :: "request \<Rightarrow> continuation \<Rightarrow> page \<Rightarrow> page" where
  "fetch r k s = suspend k (s\<lparr>log := log s @ [Fetch (next_promise s) r]\<rparr>)"

definition JSON_number :: "(int \<Rightarrow> json) \<Rightarrow> js_number \<Rightarrow> json" where
  "JSON_number beyond n =
     (case n of NaN \<Rightarrow> JNull | Num i \<Rightarrow> if exact i then JNumber i else beyond i)"

definition scroll_to_end :: "page \<Rightarrow> page" where
  "scroll_to_end s = s\<lparr>scrollTop := scrollHeight s (messagesDiv s)\<rparr>"

subsection \<open>The handlers\<close>

text \<open>
  \<^verbatim>\<open>fetchConversations\<close> up to its \<^verbatim>\<open>await\<close>, and from the parsed response on: the list
  is emptied, and one entry per record is built and appended, in the order of
  \<^verbatim>\<open>forEach\<close>.
\<close>

definition fetchConversations :: "bool \<Rightarrow> page \<Rightarrow> page" where
  "fetchConversations from_init s =
     fetch \<lparr>url = utf16 ''/api/conversations'', http_method = utf16 ''GET'', headers = [],
            body = No_body\<rparr> (After_conversations from_init) s"

definition conversation_li :: "page \<Rightarrow> conversation \<Rightarrow> li" where
  "conversation_li s c =
     \<lparr>li_textContent = c_title c @ [0x20, 0x2014, 0x20] @ toLocaleString s (c_created_at c),
      li_cursor = utf16 ''pointer'',
      li_onclick = c_id c\<rparr>"

definition fetchConversations_resume :: "conversation list \<Rightarrow> page \<Rightarrow> page" where
  "fetchConversations_resume data s =
     foldl (\<lambda>s c. s\<lparr>conversationsUl := conversationsUl s @ [conversation_li s c]\<rparr>)
       (s\<lparr>conversationsUl := []\<rparr>) data"

definition loadHistory :: "js_number \<Rightarrow> page \<Rightarrow> page" where
  "loadHistory conversationId s =
     fetch \<lparr>url = utf16 ''/api/history/'' @ Number_toString (toString_beyond s) conversationId,
            http_method = utf16 ''GET'', headers = [], body = No_body\<rparr> After_history s"

definition audio_markup :: "js_string \<Rightarrow> js_string" where
  \<open>audio_markup audioUrl =
     [0xD83D, 0xDD0A] @ utf16 '' <a href="'' @ audioUrl @ utf16 ''" target="_blank">audio</a>''\<close>

definition addMessage :: "js_string \<Rightarrow> js_string option \<Rightarrow> js_string option \<Rightarrow> page \<Rightarrow> page" where
  "addMessage role text audioUrl s =
     (let b = \<lparr>className = utf16 ''msg '' @ role, textContent = or_default text [],
               audio = None\<rparr>;
          b' = (case audioUrl of
                  None \<Rightarrow> b
                | Some u \<Rightarrow> if u = [] then b else b\<lparr>audio := Some (audio_markup u)\<rparr>)
      in s\<lparr>messagesDiv := messagesDiv s @ [b']\<rparr>)"

definition loadHistory_resume :: "message list \<Rightarrow> page \<Rightarrow> page" where
  "loadHistory_resume data s =
     scroll_to_end
       (foldl (\<lambda>s m. addMessage (m_role m) (m_content m) (m_audio_path m) s)
          (s\<lparr>messagesDiv := []\<rparr>) data)"

text \<open>The \<^verbatim>\<open>onclick\<close> of a list entry built for the conversation with identifier \<open>i\<close>.\<close>

definition li_click :: "int \<Rightarrow> page \<Rightarrow> page" where
  "li_click i s =
     loadHistory (Num i)
       (s\<lparr>convIdInput_value := Number_toString (toString_beyond s) (Num i)\<rparr>)"

text \<open>
  \<^verbatim>\<open>JSON.stringify({ conversation_id, text, use_rag })\<close>, as the document it writes:
  a \<^verbatim>\<open>NaN\<close> is written \<^verbatim>\<open>null\<close>, an exact integer as itself.
\<close>

definition chat_body :: "(int \<Rightarrow> json) \<Rightarrow> js_number \<Rightarrow> js_string \<Rightarrow> bool \<Rightarrow> json" where
  "chat_body beyond conversation_id text use_rag =
     JObject [(utf16 ''conversation_id'', JSON_number beyond conversation_id),
              (utf16 ''text'', JString text),
              (utf16 ''use_rag'', JBool use_rag)]"

definition chat_submit :: "page \<Rightarrow> page" where
  "chat_submit s =
     (let s0 = s\<lparr>log := log s @ [PreventDefault]\<rparr>;
          text = trim (or_empty (textInput_value s0))
      in if text = [] then s0
         else
           let s1 = addMessage (utf16 ''user'') (Some text) None s0;
               conversation_id = parseInt10 (convIdInput_value s1);
               s2 = s1\<lparr>textInput_value := []\<rparr>
           in fetch \<lparr>url = utf16 ''/api/chat'', http_method = utf16 ''POST'',
                     headers = [(utf16 ''Content-Type'', utf16 ''application/json'')],
                     body = Body_json
                       (chat_body (stringify_beyond s2) conversation_id text
                          (useRagCb_checked s2))\<rparr>
                After_chat s2)"

definition chat_resume :: "chat_data \<Rightarrow> page \<Rightarrow> page" where
  "chat_resume data s =
     scroll_to_end
       (addMessage (utf16 ''assistant'') (Some (or_default (reply data) (utf16 ''(no reply)'')))
          None s)"

text \<open>
  The microphone button. Pressing it without \<^verbatim>\<open>navigator.mediaDevices\<close> alerts and
  returns; otherwise the handler waits for the stream, then makes the recorder, starts it
  and sets the flag and the label.
\<close>

definition mic_mousedown :: "page \<Rightarrow> page" where
  "mic_mousedown s =
     (if \<not> mediaDevices s then s\<lparr>log := log s @ [Alert (utf16 ''No media devices API'')]\<rparr>
      else suspend After_getUserMedia (s\<lparr>log := log s @ [GetUserMedia (next_promise s)]\<rparr>))"

definition mic_mousedown_resume :: "page \<Rightarrow> page" where
  "mic_mousedown_resume s =
     s\<lparr>mediaRecorder := Some Recording,
       chunks := [],
       log := log s @ [MediaRecorder_new, MediaRecorder_start],
       recording := True,
       micBtn_textContent := [0x23FA, 0xFE0F] @ utf16 '' Recording...''\<rparr>"

text \<open>
  The handler of \<^verbatim>\<open>mouseup\<close> and of \<^verbatim>\<open>mouseleave\<close>. \<^verbatim>\<open>stop()\<close> makes the recorder
  inactive at once and queues the task that delivers the data.
\<close>

definition mic_release :: "page \<Rightarrow> page" where
  "mic_release s =
     (if recording s \<and>
         (case mediaRecorder s of None \<Rightarrow> False | Some st \<Rightarrow> st \<noteq> Inactive)
      then
        (suspend After_stop
           (s\<lparr>mediaRecorder := Some Inactive,
              log := log s @ [MediaRecorder_stop (next_promise s)]\<rparr>))
          \<lparr>recording := False, micBtn_textContent := [0xD83C, 0xDFA4]\<rparr>
      else s)"

text \<open>
  The recorder's two handlers, run by the queued task: \<^verbatim>\<open>ondataavailable\<close> pushes the
  data, \<^verbatim>\<open>onstop\<close> packs the chunks and uploads them.
\<close>

definition ondataavailable :: "blob \<Rightarrow> page \<Rightarrow> page" where
  "ondataavailable d s = s\<lparr>chunks := chunks s @ [d]\<rparr>"

definition say_form :: "page \<Rightarrow> (js_string \<times> form_value) list" where
  "say_form s =
     [(utf16 ''audio'',
         Form_file \<lparr>blob_bytes = concat (map blob_bytes (chunks s)),
                    blob_type = utf16 ''audio/webm''\<rparr> (utf16 ''speech.webm'')),
      (utf16 ''conversation_id'',
         Form_string
           (Number_toString (toString_beyond s) (parseInt10 (convIdInput_value s)))),
      (utf16 ''use_rag'',
         Form_string (if useRagCb_checked s then utf16 ''true'' else utf16 ''false''))]"

definition onstop :: "page \<Rightarrow> page" where
  "onstop s =
     fetch \<lparr>url = utf16 ''/api/say'', http_method = utf16 ''POST'', headers = [],
            body = Body_form (say_form s)\<rparr> After_say s"

definition say_resume :: "say_data \<Rightarrow> page \<Rightarrow> page" where
  "say_resume data s =
     scroll_to_end
       (addMessage (utf16 ''assistant'') (Some (or_default (say_reply data) (utf16 ''(no reply)'')))
          None
          (addMessage (utf16 ''user'')
             (Some (or_default (say_transcript data) (utf16 ''(no speech)'')))
             (say_audio_url data) s))"

definition init :: "page \<Rightarrow> page" where
  "init s = fetchConversations True s"

subsection \<open>The event loop\<close>

text \<open>
  What can happen to the page: an action of the user, or the settling of a promise. A
  settling names the promise and carries the value the handler receives; \<open>Rejected\<close> is a
  failed request or a refused microphone, after which the handler does not resume. An
  event that names a promise nobody awaits, or carries a value of another kind than the
  awaiting handler reads, cannot happen and changes nothing.
\<close>

datatype event =
    Submit
  | Mousedown
  | Mouseup
  | Mouseleave
  | Click nat
  | Conversations_json nat "conversation list"
  | History_json nat "message list"
  | Chat_json nat chat_data
  | Say_json nat say_data
  | Stream nat
  | Recorded nat blob
  | Rejected nat

definition settle :: "nat \<Rightarrow> page \<Rightarrow> page" where
  "settle k s = s\<lparr>pending := filter (\<lambda>p. fst p \<noteq> k) (pending s)\<rparr>"

fun fire :: "event \<Rightarrow> page \<Rightarrow> page" where
  "fire Submit s = chat_submit s"
| "fire Mousedown s = mic_mousedown s"
| "fire Mouseup s = mic_release s"
| "fire Mouseleave s = mic_release s"
| "fire (Click n) s =
     (if n < length (conversationsUl s) then li_click (li_onclick (conversationsUl s ! n)) s
      else s)"
| "fire (Conversations_json k data) s =
     (case map_of (pending s) k of
        Some (After_conversations from_init) \<Rightarrow>
          (let s' = fetchConversations_resume data (settle k s)
           in if from_init then loadHistory (parseInt10 (convIdInput_value s')) s' else s')
      | _ \<Rightarrow> s)"
| "fire (History_json k data) s =
     (case map_of (pending s) k of
        Some After_history \<Rightarrow> loadHistory_resume data (settle k s)
      | _ \<Rightarrow> s)"
| "fire (Chat_json k data) s =
     (case map_of (pending s) k of
        Some After_chat \<Rightarrow> chat_resume data (settle k s)
      | _ \<Rightarrow> s)"
| "fire (Say_json k data) s =
     (case map_of (pending s) k of
        Some After_say \<Rightarrow> say_resume data (settle k s)
      | _ \<Rightarrow> s)"
| "fire (Stream k) s =
     (case map_of (pending s) k of
        Some After_getUserMedia \<Rightarrow> mic_mousedown_resume (settle k s)
      | _ \<Rightarrow> s)"
| "fire (Recorded k d) s =
     (case map_of (pending s) k of
        Some After_stop \<Rightarrow> onstop (ondataavailable d (settle k s))
      | _ \<Rightarrow> s)"
| "fire (Rejected k) s =
     (case map_of (pending s) k of
        Some After_stop \<Rightarrow> s
      | Some _ \<Rightarrow> settle k s
      | None \<Rightarrow> s)"

definition run :: "event list \<Rightarrow> page \<Rightarrow> page" where
  "run es s = foldl (\<lambda>s e. fire e s) s es"

subsection \<open>Pages to run the handlers on\<close>

text \<open>
  The page as the script finds it when it is loaded, for a given content of the text
  field and of the conversation field and a given platform; the layout counts one unit of
  height per bubble, the locale leaves a timestamp as it is, and a Number that is not an
  exact integer is taken for an infinity.
\<close>

definition loaded_page :: "js_string \<Rightarrow> js_string \<Rightarrow> bool \<Rightarrow> page" where
  "loaded_page text conv devices =
     \<lparr>conversationsUl = [], messagesDiv = [], scrollTop = 0, textInput_value = text,
      micBtn_textContent = [0xD83C, 0xDFA4], useRagCb_checked = False,
      convIdInput_value = conv, mediaRecorder = None, chunks = [], recording = False,
      mediaDevices = devices, scrollHeight = length, toLocaleString = (\<lambda>t. t),
      toString_beyond = (\<lambda>i. utf16 ''Infinity''), stringify_beyond = (\<lambda>i. JNull),
      pending = [], next_promise = 0, log = []\<rparr>"

text \<open>Promise numbers are handed out in increasing order, so the next one is not in use.\<close>

definition fresh :: "page \<Rightarrow> bool" where
  "fresh s \<longleftrightarrow> (\<forall>p \<in> set (pending s). fst p < next_promise s)"

text \<open>The calls an event adds to the log.\<close>

definition new_calls :: "event \<Rightarrow> page \<Rightarrow> effect list" where
  "new_calls e s = drop (length (log s)) (log (fire e s))"


text \<open>The bubble that \<^verbatim>\<open>addMessage\<close> builds for a message of a history.\<close>

definition message_bubble :: "message \<Rightarrow> bubble" where
  "message_bubble m =
     \<lparr>className = utf16 ''msg '' @ m_role m,
      textContent = (case m_content m of None \<Rightarrow> [] | Some t \<Rightarrow> t),
      audio = (case m_audio_path m of None \<Rightarrow> None
               | Some u \<Rightarrow> if u = [] then None else Some (audio_markup u))\<rparr>"

text \<open>Data for running the handlers: two conversations, a history, a recording.\<close>

definition two_conversations :: "conversation list" where
  "two_conversations =
     [\<lparr>c_id = 7, c_title = utf16 ''Trip'', c_created_at = utf16 ''2024-05-01''\<rparr>,
      \<lparr>c_id = 3, c_title = utf16 ''Work'', c_created_at = utf16 ''2024-04-01''\<rparr>]"

definition two_messages :: "message list" where
  "two_messages =
     [\<lparr>m_role = utf16 ''user'', m_content = Some (utf16 ''hi''),
       m_audio_path = Some (utf16 ''/a.webm'')\<rparr>,
      \<lparr>m_role = utf16 ''assistant'', m_content = Some (utf16 ''yo''), m_audio_path = None\<rparr>]"


text \<open>The page after \<^verbatim>\<open>init\<close> has received the two conversations.\<close>

definition listed_page :: page where
  "listed_page =
     fire (Conversations_json 0 two_conversations) (init (loaded_page [] (utf16 ''7'') True))"

section \<open>Properties\<close>

subsection \<open>Auxiliary facts\<close>

lemma or_empty_id: "or_empty s = s"
  by (simp add: or_empty_def)

lemma utf16_append: "utf16 a @ utf16 b = utf16 (a @ b)"
  by (simp add: utf16_def)

lemma addMessage_eq:
  "addMessage role text audioUrl s =
     s\<lparr>messagesDiv := messagesDiv s @
        [\<lparr>className = utf16 ''msg '' @ role, textContent = or_default text [],
          audio = (if truthy audioUrl then map_option audio_markup audioUrl else None)\<rparr>]\<rparr>"
  by (simp add: addMessage_def truthy_def split: option.split)

lemma fetch_eq:
  "fetch r k s = s\<lparr>log := log s @ [Fetch (next_promise s) r],
                  pending := pending s @ [(next_promise s, k)],
                  next_promise := Suc (next_promise s)\<rparr>"
  by (simp add: fetch_def suspend_def)

lemma fresh_map_of: "fresh s \<Longrightarrow> map_of (pending s) (next_promise s) = None"
  by (force simp: fresh_def map_of_eq_None_iff)

lemma awaits_new:
  "fresh s \<Longrightarrow> map_of (pending s @ [(next_promise s, k)]) (next_promise s) = Some k"
  by (simp add: map_add_def fresh_map_of)

lemma trim_blank: "trim s = [] \<longleftrightarrow> list_all is_white_space s"
proof
  assume "trim s = []"
  then have rest: "\<forall>c \<in> set (dropWhile is_white_space s). is_white_space c"
    by (simp add: trim_def dropWhile_eq_Nil_conv)
  have "dropWhile is_white_space s = []"
  proof (rule ccontr)
    assume left: "dropWhile is_white_space s \<noteq> []"
    then have "\<not> is_white_space (hd (dropWhile is_white_space s))"
      by (rule hd_dropWhile)
    with rest left show False
      by simp
  qed
  then show "list_all is_white_space s"
    by (simp add: dropWhile_eq_Nil_conv list_all_iff)
next
  assume "list_all is_white_space s"
  then show "trim s = []"
    by (auto simp: trim_def dropWhile_eq_Nil_conv list_all_iff dest: set_dropWhileD)
qed

lemma chat_submit_eq:
  "trim (textInput_value s) \<noteq> [] \<Longrightarrow>
   chat_submit s =
     s\<lparr>log := log s @ [PreventDefault,
          Fetch (next_promise s)
            \<lparr>url = utf16 ''/api/chat'', http_method = utf16 ''POST'',
             headers = [(utf16 ''Content-Type'', utf16 ''application/json'')],
             body = Body_json (chat_body (stringify_beyond s) (parseInt10 (convIdInput_value s))
                      (trim (textInput_value s)) (useRagCb_checked s))\<rparr>],
       messagesDiv := messagesDiv s @
          [\<lparr>className = utf16 ''msg user'', textContent = trim (textInput_value s),
            audio = None\<rparr>],
       textInput_value := [],
       pending := pending s @ [(next_promise s, After_chat)],
       next_promise := Suc (next_promise s)\<rparr>"
  by (simp add: chat_submit_def Let_def or_empty_id addMessage_eq fetch_eq truthy_def
      or_default_def utf16_append)

lemma chat_submit_empty:
  "trim (textInput_value s) = [] \<Longrightarrow> chat_submit s = s\<lparr>log := log s @ [PreventDefault]\<rparr>"
  by (simp add: chat_submit_def Let_def or_empty_id)

lemma chat_resume_eq:
  "chat_resume data s =
     s\<lparr>messagesDiv := messagesDiv s @
          [\<lparr>className = utf16 ''msg assistant'',
            textContent = or_default (reply data) (utf16 ''(no reply)''), audio = None\<rparr>],
       scrollTop := scrollHeight s (messagesDiv s @
          [\<lparr>className = utf16 ''msg assistant'',
            textContent = or_default (reply data) (utf16 ''(no reply)''), audio = None\<rparr>])\<rparr>"
  by (simp add: chat_resume_def scroll_to_end_def addMessage_eq truthy_def utf16_append
      or_default_def utf16_def)

lemma conversations_foldl:
  "foldl (\<lambda>s c. s\<lparr>conversationsUl := conversationsUl s @ [conversation_li s c]\<rparr>) s data =
     s\<lparr>conversationsUl := conversationsUl s @ map (conversation_li s) data\<rparr>"
proof (induction data arbitrary: s)
  case Nil
  show ?case by simp
next
  case (Cons c data)
  have same: "conversation_li (s\<lparr>conversationsUl := x\<rparr>) = conversation_li s" for x
    by (rule ext) (simp add: conversation_li_def)
  show ?case
    by (simp add: Cons.IH same)
qed

lemma fetchConversations_resume_eq:
  "fetchConversations_resume data s = s\<lparr>conversationsUl := map (conversation_li s) data\<rparr>"
proof -
  have same: "conversation_li (s\<lparr>conversationsUl := []\<rparr>) = conversation_li s"
    by (rule ext) (simp add: conversation_li_def)
  show ?thesis
    by (simp add: fetchConversations_resume_def conversations_foldl same)
qed

lemma addMessage_message:
  "addMessage (m_role m) (m_content m) (m_audio_path m) s =
     s\<lparr>messagesDiv := messagesDiv s @ [message_bubble m]\<rparr>"
  by (simp add: addMessage_def message_bubble_def or_default_def split: option.split)

lemma history_foldl:
  "foldl (\<lambda>s m. addMessage (m_role m) (m_content m) (m_audio_path m) s) s data =
     s\<lparr>messagesDiv := messagesDiv s @ map message_bubble data\<rparr>"
  by (induction data arbitrary: s) (simp_all add: addMessage_message)

lemma loadHistory_resume_eq:
  "loadHistory_resume data s =
     s\<lparr>messagesDiv := map message_bubble data,
       scrollTop := scrollHeight s (map message_bubble data)\<rparr>"
  by (simp add: loadHistory_resume_def history_foldl scroll_to_end_def)

lemma loadHistory_eq:
  "loadHistory i s =
     s\<lparr>log := log s @ [Fetch (next_promise s)
            \<lparr>url = utf16 ''/api/history/'' @ Number_toString (toString_beyond s) i,
             http_method = utf16 ''GET'',
             headers = [], body = No_body\<rparr>],
       pending := pending s @ [(next_promise s, After_history)],
       next_promise := Suc (next_promise s)\<rparr>"
  by (simp add: loadHistory_def fetch_eq)

lemma say_resume_eq:
  "say_resume data s =
     s\<lparr>messagesDiv := messagesDiv s @
          [\<lparr>className = utf16 ''msg user'',
            textContent = or_default (say_transcript data) (utf16 ''(no speech)''),
            audio = (if truthy (say_audio_url data)
                     then map_option audio_markup (say_audio_url data) else None)\<rparr>,
           \<lparr>className = utf16 ''msg assistant'',
            textContent = or_default (say_reply data) (utf16 ''(no reply)''), audio = None\<rparr>],
       scrollTop := scrollHeight s (messagesDiv s @
          [\<lparr>className = utf16 ''msg user'',
            textContent = or_default (say_transcript data) (utf16 ''(no speech)''),
            audio = (if truthy (say_audio_url data)
                     then map_option audio_markup (say_audio_url data) else None)\<rparr>,
           \<lparr>className = utf16 ''msg assistant'',
            textContent = or_default (say_reply data) (utf16 ''(no reply)''), audio = None\<rparr>])\<rparr>"
proof -
  have filled: "or_default (Some (or_default v (utf16 (c # cs)))) [] = or_default v (utf16 (c # cs))"
    for v c cs
    by (simp add: or_default_def utf16_def split: option.split)
  show ?thesis
    by (simp add: say_resume_def scroll_to_end_def addMessage_eq utf16_append filled
        truthy_def)
qed

lemma onstop_eq:
  "onstop s =
     s\<lparr>log := log s @ [Fetch (next_promise s)
            \<lparr>url = utf16 ''/api/say'', http_method = utf16 ''POST'', headers = [],
             body = Body_form (say_form s)\<rparr>],
       pending := pending s @ [(next_promise s, After_say)],
       next_promise := Suc (next_promise s)\<rparr>"
  by (simp add: onstop_def fetch_eq)



lemma mic_release_idle:
  "\<not> recording s \<or> mediaRecorder s = None \<or> mediaRecorder s = Some Inactive \<Longrightarrow>
   mic_release s = s"
  by (auto simp: mic_release_def)

lemmas handler_eqs =
  fetchConversations_resume_eq loadHistory_resume_eq loadHistory_eq chat_resume_eq
  say_resume_eq onstop_eq

lemmas eval_strings =
  utf16_def trim_def is_white_space_def is_digit_def digit_value_def digits_value_def
  parseInt10_def

lemma log_fire: "log (fire e s) = log s @ new_calls e s"
proof (cases e)
  case Submit
  then show ?thesis
    by (cases "trim (textInput_value s) = []")
      (simp_all add: new_calls_def chat_submit_eq chat_submit_empty)
qed (simp_all add: new_calls_def mic_mousedown_def mic_release_def suspend_def li_click_def
      handler_eqs settle_def Let_def mic_mousedown_resume_def ondataavailable_def
      split: option.splits continuation.splits)

lemma fresh_fire: "fresh s \<Longrightarrow> fresh (fire e s)"
proof (cases e)
  case Submit
  assume "fresh s"
  with Submit show ?thesis
    by (cases "trim (textInput_value s) = []")
      (auto simp: fresh_def chat_submit_eq chat_submit_empty)
qed (auto simp: fresh_def mic_mousedown_def mic_release_def suspend_def li_click_def
      handler_eqs settle_def Let_def mic_mousedown_resume_def ondataavailable_def
      split: option.splits continuation.splits)

lemma fresh_run: "fresh s \<Longrightarrow> fresh (run es s)"
  unfolding run_def by (induction es arbitrary: s) (simp_all add: fresh_fire)

lemma digit_char_unat: "d < 10 \<Longrightarrow> unat (digit_char d) = 48 + d"
  unfolding digit_char_def by (subst unat_of_nat) (simp add: take_bit_nat_eq_self)

lemma digit_char_is_digit: "d < 10 \<Longrightarrow> is_digit (digit_char d)"
  by (simp add: is_digit_def word_le_nat_alt digit_char_unat)

lemma digit_char_value: "d < 10 \<Longrightarrow> digit_value (digit_char d) = d"
  by (simp add: digit_value_def digit_char_unat)

lemma digit_not_space: "is_digit c \<Longrightarrow> \<not> is_white_space c"
  by (auto simp: is_digit_def is_white_space_def)

lemma digit_not_sign: "is_digit c \<Longrightarrow> c \<noteq> 0x2B \<and> c \<noteq> 0x2D"
  by (auto simp: is_digit_def)

lemma decimal_digits: "list_all is_digit (decimal n)"
proof (induction n rule: decimal.induct)
  case (1 n)
  show ?case
  proof (cases "n < 10")
    case True
    then show ?thesis
      by (subst decimal.simps) (simp add: digit_char_is_digit)
  next
    case False
    with 1 show ?thesis
      by (subst decimal.simps) (simp add: digit_char_is_digit)
  qed
qed

lemma decimal_not_empty: "decimal n \<noteq> []"
  by (subst decimal.simps) simp

lemma digits_value_snoc: "digits_value (z @ [c]) = 10 * digits_value z + digit_value c"
  by (simp add: digits_value_def)

lemma digits_value_decimal: "digits_value (decimal n) = n"
proof (induction n rule: decimal.induct)
  case (1 n)
  show ?case
  proof (cases "n < 10")
    case True
    then show ?thesis
      by (subst decimal.simps) (simp add: digits_value_def digit_char_value)
  next
    case False
    with 1 show ?thesis
      by (subst decimal.simps) (simp add: digits_value_snoc digit_char_value)
  qed
qed

lemma takeWhile_digits: "list_all is_digit z \<Longrightarrow> takeWhile is_digit z = z"
  by (induction z) simp_all

lemma parseInt10_digits:
  assumes "z \<noteq> []" and "list_all is_digit z"
  shows "parseInt10 z = Num (int (digits_value z))"
proof -
  from assms obtain c r where shape: "z = c # r" and digit: "is_digit c"
    by (cases z) auto
  have whole: "takeWhile is_digit (c # r) = c # r"
    using assms(2) unfolding shape by (rule takeWhile_digits)
  have kept: "dropWhile is_white_space (c # r) = c # r"
    by (simp add: digit_not_space [OF digit])
  show ?thesis
    unfolding shape parseInt10_def kept Let_def
    using digit_not_sign [OF digit] by (simp add: whole del: takeWhile.simps)
qed

lemma parseInt10_minus_digits:
  assumes "z \<noteq> []" and "list_all is_digit z"
  shows "parseInt10 (0x2D # z) = Num (- int (digits_value z))"
proof -
  have kept: "dropWhile is_white_space (0x2D # z) = 0x2D # z"
    by (simp add: is_white_space_def)
  show ?thesis
    unfolding parseInt10_def kept Let_def
    using assms by (simp add: takeWhile_digits)
qed

lemma parseInt10_Number_toString:
  "exact i \<Longrightarrow> parseInt10 (Number_toString beyond (Num i)) = Num i"
  by (simp add: parseInt10_digits parseInt10_minus_digits decimal_not_empty decimal_digits
      digits_value_decimal)



subsection \<open>Submitting the chat form\<close>

text \<open>
  C3. When the text field is empty or holds white space only, submitting the form adds no
  bubble, makes no request and suspends nothing: the only call is the one that keeps the
  form from navigating, so nothing is reported either.
\<close>

theorem submit_blank_no_effect:
  "list_all is_white_space (textInput_value s) \<Longrightarrow>
     messagesDiv (fire Submit s) = messagesDiv s \<and>
     log (fire Submit s) = log s @ [PreventDefault] \<and>
     pending (fire Submit s) = pending s"
  by (simp add: chat_submit_empty trim_blank)

theorem submit_blank_no_effect_witness:
  "list_all is_white_space (textInput_value (loaded_page (utf16 '' '') (utf16 ''7'') True)) \<and>
   messagesDiv (fire Submit (loaded_page (utf16 '' '') (utf16 ''7'') True)) = [] \<and>
   log (fire Submit (loaded_page (utf16 '' '') (utf16 ''7'') True)) = [PreventDefault] \<and>
   pending (fire Submit (loaded_page (utf16 '' '') (utf16 ''7'') True)) = []"
proof -
  have blank:
    "list_all is_white_space (textInput_value (loaded_page (utf16 '' '') (utf16 ''7'') True))"
    by (simp add: loaded_page_def utf16_def is_white_space_def)
  from submit_blank_no_effect [OF blank] blank show ?thesis
    by (simp add: loaded_page_def)
qed

text \<open>
  C10. When the text field is empty or holds white space only, submitting the form leaves
  the content of the field as it is.
\<close>

theorem submit_blank_keeps_input:
  "list_all is_white_space (textInput_value s) \<Longrightarrow>
     textInput_value (fire Submit s) = textInput_value s"
  by (simp add: chat_submit_empty trim_blank)

theorem submit_blank_keeps_input_witness:
  "list_all is_white_space (textInput_value (loaded_page [0x20, 0x09, 0x3000] [] True)) \<and>
   textInput_value (fire Submit (loaded_page [0x20, 0x09, 0x3000] [] True)) =
     [0x20, 0x09, 0x3000]"
proof -
  have blank:
    "list_all is_white_space (textInput_value (loaded_page [0x20, 0x09, 0x3000] [] True))"
    by (simp add: loaded_page_def is_white_space_def)
  from submit_blank_keeps_input [OF blank] blank show ?thesis
    by (simp add: loaded_page_def)
qed

text \<open>
  C9. When the conversation field does not parse as an integer, submitting a text that is
  not blank still makes the chat request, and the request's document carries
  \<^verbatim>\<open>null\<close> for \<^verbatim>\<open>conversation_id\<close>.
\<close>

theorem submit_unparsed_conversation_sends_null:
  "parseInt10 (convIdInput_value s) = NaN \<Longrightarrow> trim (textInput_value s) \<noteq> [] \<Longrightarrow>
     log (fire Submit s) = log s @
       [PreventDefault,
        Fetch (next_promise s)
          \<lparr>url = utf16 ''/api/chat'', http_method = utf16 ''POST'',
           headers = [(utf16 ''Content-Type'', utf16 ''application/json'')],
           body = Body_json
             (JObject [(utf16 ''conversation_id'', JNull),
                       (utf16 ''text'', JString (trim (textInput_value s))),
                       (utf16 ''use_rag'', JBool (useRagCb_checked s))])\<rparr>]"
  by (simp add: chat_submit_eq chat_body_def JSON_number_def)

theorem submit_unparsed_conversation_sends_null_witness:
  "parseInt10 (convIdInput_value (loaded_page (utf16 ''hi'') [] True)) = NaN \<and>
   trim (textInput_value (loaded_page (utf16 ''hi'') [] True)) \<noteq> [] \<and>
   log (fire Submit (loaded_page (utf16 ''hi'') [] True)) =
       [PreventDefault,
        Fetch 0
          \<lparr>url = utf16 ''/api/chat'', http_method = utf16 ''POST'',
           headers = [(utf16 ''Content-Type'', utf16 ''application/json'')],
           body = Body_json
             (JObject [(utf16 ''conversation_id'', JNull),
                       (utf16 ''text'', JString (utf16 ''hi'')),
                       (utf16 ''use_rag'', JBool False)])\<rparr>]"
proof -
  have nan: "parseInt10 (convIdInput_value (loaded_page (utf16 ''hi'') [] True)) = NaN"
    by (simp add: loaded_page_def eval_strings)
  have trimmed: "trim (textInput_value (loaded_page (utf16 ''hi'') [] True)) = utf16 ''hi''"
    by (simp add: loaded_page_def eval_strings)
  have filled: "trim (textInput_value (loaded_page (utf16 ''hi'') [] True)) \<noteq> []"
    by (simp add: loaded_page_def eval_strings)
  from submit_unparsed_conversation_sends_null [OF nan filled] nan filled trimmed
  show ?thesis
    by (simp add: loaded_page_def)
qed

text \<open>
  C8. When a text that is not blank is submitted, the text field is already empty in the
  state the handler leaves behind when it suspends on the chat request. The response to
  that request is still awaited in that state, and it could not have been delivered in
  the state before, where its promise did not exist: the field is cleared before the
  response arrives.
\<close>

theorem submit_clears_input_before_response:
  "fresh s \<Longrightarrow> trim (textInput_value s) \<noteq> [] \<Longrightarrow>
     textInput_value (fire Submit s) = [] \<and>
     map_of (pending (fire Submit s)) (next_promise s) = Some After_chat \<and>
     fire (Chat_json (next_promise s) data) s = s"
  by (simp add: chat_submit_eq fresh_map_of awaits_new del: map_of_append)

theorem submit_clears_input_before_response_witness:
  "fresh (loaded_page (utf16 ''hi'') (utf16 ''7'') True) \<and>
   trim (textInput_value (loaded_page (utf16 ''hi'') (utf16 ''7'') True)) \<noteq> [] \<and>
   textInput_value (fire Submit (loaded_page (utf16 ''hi'') (utf16 ''7'') True)) = [] \<and>
   map_of (pending (fire Submit (loaded_page (utf16 ''hi'') (utf16 ''7'') True))) 0 =
     Some After_chat \<and>
   fire (Chat_json 0 \<lparr>reply = Some (utf16 ''yo'')\<rparr>)
     (loaded_page (utf16 ''hi'') (utf16 ''7'') True) =
     loaded_page (utf16 ''hi'') (utf16 ''7'') True"
proof -
  have fr: "fresh (loaded_page (utf16 ''hi'') (utf16 ''7'') True)"
    by (simp add: loaded_page_def fresh_def)
  have filled: "trim (textInput_value (loaded_page (utf16 ''hi'') (utf16 ''7'') True)) \<noteq> []"
    by (simp add: loaded_page_def eval_strings)
  have "next_promise (loaded_page (utf16 ''hi'') (utf16 ''7'') True) = 0"
    by (simp add: loaded_page_def)
  with submit_clears_input_before_response
    [OF fr filled, of "\<lparr>reply = Some (utf16 ''yo'')\<rparr>"] fr filled
  show ?thesis
    by simp
qed

text \<open>
  C1, as far as it holds. Submitting a text that is not blank first appends a user bubble
  whose text is the trimmed input and leaves the chat request awaited. Whenever the
  response to a chat request is delivered, an assistant bubble is appended whose text is
  the reply when the reply is present and not empty, and \<^verbatim>\<open>(no reply)\<close> when it is absent
  or empty.
\<close>

theorem submit_renders_user_then_reply:
  "fresh s \<Longrightarrow> trim (textInput_value s) \<noteq> [] \<Longrightarrow>
     messagesDiv (fire Submit s) = messagesDiv s @
       [\<lparr>className = utf16 ''msg user'', textContent = trim (textInput_value s),
         audio = None\<rparr>] \<and>
     map_of (pending (fire Submit s)) (next_promise s) = Some After_chat \<and>
     (map_of (pending s') k = Some After_chat \<longrightarrow>
        messagesDiv (fire (Chat_json k data) s') = messagesDiv s' @
          [\<lparr>className = utf16 ''msg assistant'',
            textContent = (case reply data of
                             None \<Rightarrow> utf16 ''(no reply)''
                           | Some r \<Rightarrow> if r = [] then utf16 ''(no reply)'' else r),
            audio = None\<rparr>])"
  by (simp add: chat_submit_eq awaits_new chat_resume_eq settle_def or_default_def
      del: map_of_append)

theorem submit_renders_user_then_reply_witness:
  "fresh (loaded_page (utf16 '' hi '') (utf16 ''7'') True) \<and>
   trim (textInput_value (loaded_page (utf16 '' hi '') (utf16 ''7'') True)) \<noteq> [] \<and>
   map_of (pending (fire Submit (loaded_page (utf16 '' hi '') (utf16 ''7'') True))) 0 =
     Some After_chat \<and>
   messagesDiv (fire (Chat_json 0 \<lparr>reply = Some (utf16 ''yo'')\<rparr>)
       (fire Submit (loaded_page (utf16 '' hi '') (utf16 ''7'') True))) =
     [\<lparr>className = utf16 ''msg user'', textContent = utf16 ''hi'', audio = None\<rparr>,
      \<lparr>className = utf16 ''msg assistant'', textContent = utf16 ''yo'', audio = None\<rparr>]"
proof -
  let ?P = "loaded_page (utf16 '' hi '') (utf16 ''7'') True"
  have fr: "fresh ?P"
    by (simp add: loaded_page_def fresh_def)
  have trimmed: "trim (textInput_value ?P) = utf16 ''hi''"
    by (simp add: loaded_page_def eval_strings)
  have filled: "trim (textInput_value ?P) \<noteq> []"
    unfolding trimmed by (simp add: utf16_def)
  have start: "next_promise ?P = 0" "messagesDiv ?P = []"
    by (simp_all add: loaded_page_def)
  note facts = submit_renders_user_then_reply
    [OF fr filled, of "fire Submit ?P" 0 "\<lparr>reply = Some (utf16 ''yo'')\<rparr>"]
  from facts have user: "messagesDiv (fire Submit ?P) =
      [\<lparr>className = utf16 ''msg user'', textContent = utf16 ''hi'', audio = None\<rparr>]"
    by (simp add: start trimmed)
  from facts have awaited: "map_of (pending (fire Submit ?P)) 0 = Some After_chat"
    by (simp add: start)
  have yo: "utf16 ''yo'' \<noteq> []"
    by (simp add: utf16_def)
  from facts awaited have "messagesDiv (fire (Chat_json 0 \<lparr>reply = Some (utf16 ''yo'')\<rparr>)
       (fire Submit ?P)) = messagesDiv (fire Submit ?P) @
     [\<lparr>className = utf16 ''msg assistant'', textContent = utf16 ''yo'', audio = None\<rparr>]"
    by (simp add: yo)
  with user awaited fr filled show ?thesis
    by simp
qed

text \<open>
  C1 as it is worded fails on a reply that is present and empty: the assistant bubble then
  shows the placeholder, not the reply.
\<close>

theorem submit_empty_reply_counterexample:
  "reply \<lparr>reply = Some []\<rparr> = Some [] \<and>
   textContent (last (messagesDiv (fire (Chat_json 0 \<lparr>reply = Some []\<rparr>)
      (fire Submit (loaded_page (utf16 ''hi'') (utf16 ''7'') True))))) = utf16 ''(no reply)'' \<and>
   utf16 ''(no reply)'' \<noteq> []"
proof -
  let ?P = "loaded_page (utf16 ''hi'') (utf16 ''7'') True"
  have filled: "trim (textInput_value ?P) \<noteq> []"
    by (simp add: loaded_page_def eval_strings)
  have awaited: "map_of (pending (chat_submit ?P)) 0 = Some After_chat"
    by (simp add: chat_submit_eq [OF filled]) (simp add: loaded_page_def)
  show ?thesis
    by (simp add: awaited chat_resume_eq or_default_def) (simp add: utf16_def)
qed

subsection \<open>The microphone button\<close>

text \<open>
  C7. Pressing the button on a platform without \<^verbatim>\<open>navigator.mediaDevices\<close> raises the
  alert and changes nothing else: the microphone is not asked for, no recorder is made,
  nothing is awaited, and the flag and the label stay as they were.
\<close>

theorem mousedown_without_media_devices:
  "\<not> mediaDevices s \<Longrightarrow>
     fire Mousedown s = s\<lparr>log := log s @ [Alert (utf16 ''No media devices API'')]\<rparr>"
  by (simp add: mic_mousedown_def)

theorem mousedown_without_media_devices_witness:
  "\<not> mediaDevices (loaded_page [] (utf16 ''7'') False) \<and>
   log (fire Mousedown (loaded_page [] (utf16 ''7'') False)) =
     [Alert (utf16 ''No media devices API'')] \<and>
   mediaRecorder (fire Mousedown (loaded_page [] (utf16 ''7'') False)) = None \<and>
   pending (fire Mousedown (loaded_page [] (utf16 ''7'') False)) = [] \<and>
   \<not> recording (fire Mousedown (loaded_page [] (utf16 ''7'') False))"
proof -
  have none: "\<not> mediaDevices (loaded_page [] (utf16 ''7'') False)"
    by (simp add: loaded_page_def)
  from mousedown_without_media_devices [OF none] none show ?thesis
    by (simp add: loaded_page_def)
qed

text \<open>
  C6. Releasing the button, by \<^verbatim>\<open>mouseup\<close> or by \<^verbatim>\<open>mouseleave\<close>, while the flag is
  not set or there is no recorder or the recorder is inactive, leaves the whole state as
  it is: nothing is stopped and nothing is uploaded. And whatever the event and the state,
  a stop is among the calls the event makes only if the event is a release, the flag is
  set and the recorder is not inactive.
\<close>

theorem release_stops_only_when_recording:
  "(\<not> recording s \<or> mediaRecorder s = None \<or> mediaRecorder s = Some Inactive \<longrightarrow>
      fire Mouseup s = s \<and> fire Mouseleave s = s) \<and>
   (MediaRecorder_stop k \<in> set (new_calls e s') \<longrightarrow>
      (e = Mouseup \<or> e = Mouseleave) \<and> recording s' \<and>
      (\<exists>st. mediaRecorder s' = Some st \<and> st \<noteq> Inactive))"
proof (intro conjI impI)
  assume idle: "\<not> recording s \<or> mediaRecorder s = None \<or> mediaRecorder s = Some Inactive"
  then show "fire Mouseup s = s" "fire Mouseleave s = s"
    by (simp_all add: mic_release_idle)
next
  assume stop: "MediaRecorder_stop k \<in> set (new_calls e s')"
  have release: "e = Mouseup \<or> e = Mouseleave"
  proof (cases e)
    case Submit
    with stop show ?thesis
      by (cases "trim (textInput_value s') = []")
        (simp_all add: new_calls_def chat_submit_eq chat_submit_empty)
  next
    case Mousedown
    with stop show ?thesis
      by (simp add: new_calls_def mic_mousedown_def suspend_def split: if_splits)
  next
    case (Click n)
    with stop show ?thesis
      by (simp add: new_calls_def li_click_def loadHistory_eq split: if_splits)
  next
    case (Conversations_json p data)
    with stop show ?thesis
      by (simp add: new_calls_def handler_eqs settle_def Let_def
          split: option.splits continuation.splits if_splits)
  next
    case (History_json p data)
    with stop show ?thesis
      by (simp add: new_calls_def handler_eqs settle_def
          split: option.splits continuation.splits)
  next
    case (Chat_json p data)
    with stop show ?thesis
      by (simp add: new_calls_def handler_eqs settle_def
          split: option.splits continuation.splits)
  next
    case (Say_json p data)
    with stop show ?thesis
      by (simp add: new_calls_def handler_eqs settle_def
          split: option.splits continuation.splits)
  next
    case (Stream p)
    with stop show ?thesis
      by (simp add: new_calls_def mic_mousedown_resume_def settle_def
          split: option.splits continuation.splits)
  next
    case (Recorded p d)
    with stop show ?thesis
      by (simp add: new_calls_def handler_eqs ondataavailable_def settle_def
          split: option.splits continuation.splits)
  next
    case (Rejected p)
    with stop show ?thesis
      by (simp add: new_calls_def settle_def split: option.splits continuation.splits)
  qed simp_all
  have changed: "mic_release s' \<noteq> s'"
  proof
    assume "mic_release s' = s'"
    with release have "new_calls e s' = []"
      by (auto simp: new_calls_def)
    with stop show False
      by simp
  qed
  from release show "e = Mouseup \<or> e = Mouseleave" .
  from changed show "recording s'"
    by (auto simp: mic_release_def split: if_splits)
  from changed show "\<exists>st. mediaRecorder s' = Some st \<and> st \<noteq> Inactive"
    by (auto simp: mic_release_def split: if_splits option.splits)
qed

theorem release_stops_only_when_recording_witness:
  "\<not> recording (loaded_page [] (utf16 ''7'') True) \<and>
   fire Mouseup (loaded_page [] (utf16 ''7'') True) = loaded_page [] (utf16 ''7'') True \<and>
   fire Mouseleave (loaded_page [] (utf16 ''7'') True) = loaded_page [] (utf16 ''7'') True \<and>
   MediaRecorder_stop 1 \<in>
     set (new_calls Mouseup (run [Mousedown, Stream 0] (loaded_page [] (utf16 ''7'') True))) \<and>
   recording (run [Mousedown, Stream 0] (loaded_page [] (utf16 ''7'') True)) \<and>
   mediaRecorder (run [Mousedown, Stream 0] (loaded_page [] (utf16 ''7'') True)) =
     Some Recording"
proof -
  let ?P = "loaded_page [] (utf16 ''7'') True"
  let ?R = "run [Mousedown, Stream 0] ?P"
  have idle: "\<not> recording ?P"
    by (simp add: loaded_page_def)
  have stop: "MediaRecorder_stop 1 \<in> set (new_calls Mouseup ?R)"
    by (simp add: run_def new_calls_def loaded_page_def mic_mousedown_def suspend_def
        settle_def mic_mousedown_resume_def mic_release_def)
  have recorder: "mediaRecorder ?R = Some Recording"
    by (simp add: run_def loaded_page_def mic_mousedown_def suspend_def settle_def
        mic_mousedown_resume_def)
  from release_stops_only_when_recording [of ?P 1 Mouseup ?R] idle stop recorder
  show ?thesis
    by simp
qed

subsection \<open>The conversation list and the history\<close>

text \<open>
  C4. When the response to the conversations request is delivered, the list holds, whatever
  it held before, exactly one entry per record of the response, in the order of the
  response; the label of an entry is the title, then a space, an em dash (code unit
  \<open>0x2014\<close>) and a space, then the locale's rendering of \<^verbatim>\<open>created_at\<close>.
\<close>

theorem conversations_rendered_in_order:
  "map_of (pending s) k = Some (After_conversations from_init) \<Longrightarrow>
     map li_textContent (conversationsUl (fire (Conversations_json k data) s)) =
       map (\<lambda>c. c_title c @ [0x20, 0x2014, 0x20] @ toLocaleString s (c_created_at c)) data \<and>
     map li_onclick (conversationsUl (fire (Conversations_json k data) s)) = map c_id data \<and>
     length (conversationsUl (fire (Conversations_json k data) s)) = length data"
  by (simp add: handler_eqs settle_def Let_def conversation_li_def comp_def)

theorem conversations_rendered_in_order_witness:
  "map_of (pending (init (loaded_page [] (utf16 ''7'') True))) 0 =
     Some (After_conversations True) \<and>
   map li_textContent (conversationsUl (fire (Conversations_json 0
       [\<lparr>c_id = 7, c_title = utf16 ''Trip'', c_created_at = utf16 ''2024-05-01''\<rparr>,
        \<lparr>c_id = 3, c_title = utf16 ''Work'', c_created_at = utf16 ''2024-04-01''\<rparr>])
       (init (loaded_page [] (utf16 ''7'') True)))) =
     [utf16 ''Trip'' @ [0x20, 0x2014, 0x20] @ utf16 ''2024-05-01'',
      utf16 ''Work'' @ [0x20, 0x2014, 0x20] @ utf16 ''2024-04-01'']"
proof -
  let ?P = "init (loaded_page [] (utf16 ''7'') True)"
  have awaited: "map_of (pending ?P) 0 = Some (After_conversations True)"
    by (simp add: init_def fetchConversations_def fetch_eq loaded_page_def)
  have rendering: "toLocaleString ?P = (\<lambda>t. t)"
    by (simp add: init_def fetchConversations_def fetch_eq loaded_page_def)
  from conversations_rendered_in_order [OF awaited] awaited show ?thesis
    by (simp add: rendering)
qed

text \<open>
  C5. Clicking the entry built for a conversation writes that conversation's identifier
  into the conversation field, as the platform prints the Number, and makes exactly one
  call, the history request whose address ends in that same string, which is then awaited.
  When the identifier is an exact integer (of magnitude at most \<open>2 ^ 53\<close>), the string is
  its decimal digits and the field reads back as the identifier. Whenever the response to
  a history request is delivered, the view holds exactly the bubbles of the returned
  messages, in order, whatever it held before, and its scroll position is set to the
  height of that content.
\<close>

theorem click_selects_and_loads_history:
  "n < length (conversationsUl s) \<Longrightarrow> conversationsUl s ! n = conversation_li s c \<Longrightarrow>
   fresh s \<Longrightarrow>
     convIdInput_value (fire (Click n) s) =
       Number_toString (toString_beyond s) (Num (c_id c)) \<and>
     (exact (c_id c) \<longrightarrow>
        convIdInput_value (fire (Click n) s) =
          (if c_id c < 0 then 0x2D # decimal (nat (- c_id c)) else decimal (nat (c_id c))) \<and>
        parseInt10 (convIdInput_value (fire (Click n) s)) = Num (c_id c)) \<and>
     new_calls (Click n) s =
       [Fetch (next_promise s)
          \<lparr>url = utf16 ''/api/history/'' @
                 Number_toString (toString_beyond s) (Num (c_id c)),
           http_method = utf16 ''GET'', headers = [], body = No_body\<rparr>] \<and>
     map_of (pending (fire (Click n) s)) (next_promise s) = Some After_history \<and>
     (map_of (pending s') k = Some After_history \<longrightarrow>
        messagesDiv (fire (History_json k data) s') = map message_bubble data \<and>
        scrollTop (fire (History_json k data) s') =
          scrollHeight s' (messagesDiv (fire (History_json k data) s')))"
proof -
  assume inside: "n < length (conversationsUl s)"
    and entry: "conversationsUl s ! n = conversation_li s c"
    and fr: "fresh s"
  have clicked: "fire (Click n) s = li_click (c_id c) s"
    using inside entry by (simp add: conversation_li_def)
  have field: "convIdInput_value (fire (Click n) s) =
      Number_toString (toString_beyond s) (Num (c_id c))"
    unfolding clicked by (simp add: li_click_def loadHistory_eq)
  have digits: "convIdInput_value (fire (Click n) s) =
      (if c_id c < 0 then 0x2D # decimal (nat (- c_id c)) else decimal (nat (c_id c)))"
    if "exact (c_id c)"
    unfolding field using that by simp
  have reads: "parseInt10 (convIdInput_value (fire (Click n) s)) = Num (c_id c)"
    if "exact (c_id c)"
    unfolding field using that by (rule parseInt10_Number_toString)
  have calls: "new_calls (Click n) s =
       [Fetch (next_promise s)
          \<lparr>url = utf16 ''/api/history/'' @
                 Number_toString (toString_beyond s) (Num (c_id c)),
           http_method = utf16 ''GET'', headers = [], body = No_body\<rparr>]"
    unfolding new_calls_def clicked
    by (simp add: li_click_def loadHistory_eq del: Number_toString.simps)
  have awaited: "map_of (pending (fire (Click n) s)) (next_promise s) = Some After_history"
    unfolding clicked using awaits_new [OF fr]
    by (simp add: li_click_def loadHistory_eq del: map_of_append)
  have history: "messagesDiv (fire (History_json k data) s') = map message_bubble data \<and>
        scrollTop (fire (History_json k data) s') =
          scrollHeight s' (messagesDiv (fire (History_json k data) s'))"
    if "map_of (pending s') k = Some After_history"
    using that by (simp add: loadHistory_resume_eq settle_def)
  from field digits reads calls awaited history show ?thesis
    by blast
qed

theorem click_selects_and_loads_history_witness:
  "1 < length (conversationsUl listed_page) \<and>
   conversationsUl listed_page ! 1 = conversation_li listed_page (two_conversations ! 1) \<and>
   fresh listed_page \<and>
   exact (c_id (two_conversations ! 1)) \<and>
   convIdInput_value (fire (Click 1) listed_page) = utf16 ''3'' \<and>
   parseInt10 (convIdInput_value (fire (Click 1) listed_page)) = Num 3 \<and>
   new_calls (Click 1) listed_page =
     [Fetch 2 \<lparr>url = utf16 ''/api/history/3'', http_method = utf16 ''GET'', headers = [],
               body = No_body\<rparr>] \<and>
   map_of (pending (fire (Click 1) listed_page)) 2 = Some After_history \<and>
   messagesDiv (fire (History_json 2 two_messages) (fire (Click 1) listed_page)) =
     [\<lparr>className = utf16 ''msg user'', textContent = utf16 ''hi'',
       audio = Some (audio_markup (utf16 ''/a.webm''))\<rparr>,
      \<lparr>className = utf16 ''msg assistant'', textContent = utf16 ''yo'', audio = None\<rparr>]"
proof -
  have awaited: "map_of (pending (init (loaded_page [] (utf16 ''7'') True))) 0 =
      Some (After_conversations True)"
    by (simp add: init_def fetchConversations_def fetch_eq loaded_page_def)
  have entries: "conversationsUl listed_page =
      map (conversation_li listed_page) two_conversations"
    by (simp add: listed_page_def awaited handler_eqs settle_def conversation_li_def)
  have long: "1 < length (conversationsUl listed_page)"
    by (simp add: entries two_conversations_def)
  have entry: "conversationsUl listed_page ! 1 =
      conversation_li listed_page (two_conversations ! 1)"
    by (simp add: entries two_conversations_def)
  have next_one: "next_promise listed_page = 2"
    by (simp add: listed_page_def awaited handler_eqs settle_def init_def
        fetchConversations_def fetch_eq loaded_page_def)
  have fr: "fresh listed_page"
    by (simp add: fresh_def listed_page_def awaited handler_eqs settle_def init_def
        fetchConversations_def fetch_eq loaded_page_def)
  have id: "c_id (two_conversations ! 1) = 3"
    by (simp add: two_conversations_def)
  have small: "exact (c_id (two_conversations ! 1))"
    unfolding id by (simp add: exact_def)
  have three: "Number_toString (toString_beyond listed_page)
      (Num (c_id (two_conversations ! 1))) = utf16 ''3''"
    unfolding id by (simp add: exact_def decimal.simps digit_char_def utf16_def)
  note facts = click_selects_and_loads_history
    [OF long entry fr, of "fire (Click 1) listed_page" 2 two_messages]
  from facts have field: "convIdInput_value (fire (Click 1) listed_page) = utf16 ''3''"
    by (simp only: three)
  from facts small have "parseInt10 (convIdInput_value (fire (Click 1) listed_page)) =
      Num (c_id (two_conversations ! 1))"
    by blast
  then have reads: "parseInt10 (convIdInput_value (fire (Click 1) listed_page)) = Num 3"
    unfolding id .
  from facts have calls: "new_calls (Click 1) listed_page =
     [Fetch 2 \<lparr>url = utf16 ''/api/history/3'', http_method = utf16 ''GET'', headers = [],
               body = No_body\<rparr>]"
    by (simp only: three next_one) (simp add: utf16_def)
  from facts have waits: "map_of (pending (fire (Click 1) listed_page)) 2 = Some After_history"
    by (simp only: next_one)
  from facts waits have "messagesDiv (fire (History_json 2 two_messages)
      (fire (Click 1) listed_page)) = map message_bubble two_messages"
    by blast
  then have view: "messagesDiv (fire (History_json 2 two_messages)
      (fire (Click 1) listed_page)) =
     [\<lparr>className = utf16 ''msg user'', textContent = utf16 ''hi'',
       audio = Some (audio_markup (utf16 ''/a.webm''))\<rparr>,
      \<lparr>className = utf16 ''msg assistant'', textContent = utf16 ''yo'', audio = None\<rparr>]"
    by (simp add: two_messages_def message_bubble_def utf16_def)
  from long entry fr small field reads calls waits view show ?thesis
    by (intro conjI)
qed

subsection \<open>Recording and uploading\<close>




end
